theory Spec2Isabelle
  imports Main "HOL-Library.Sublist"
begin

section \<open>virtualenvapi/pip.py: the \<open>PipWrapper\<close> class\<close>

text \<open>
  The module is read as Python 3 on a POSIX system (the executable lives in \<open>bin/\<close>):
  \<open>os.sep\<close> is \<open>/\<close>, \<open>os.linesep\<close> is the line feed, \<open>six.u\<close> returns its argument,
  \<open>str\<close> is a sequence of Unicode code points and the pipes of a subprocess deliver
  \<open>bytes\<close>.
\<close>

subsection \<open>Text and bytes\<close>

type_synonym str = "nat list"
type_synonym bytes = "char list"

text \<open>A \<open>str\<close> literal of the source: the code points of its characters.\<close>

definition six_u :: "string \<Rightarrow> str" where
  "six_u s = map of_char s"

definition os_sep :: str where
  "os_sep = six_u ''/''"

definition os_linesep :: str where
  "os_linesep = [10]"

text \<open>
  \<open>bytes.strip()\<close> removes ASCII whitespace (space, tab, line feed, carriage return,
  vertical tab, form feed); \<open>str.strip()\<close> removes the characters for which
  \<open>str.isspace\<close> holds.
\<close>

definition bytes_isspace :: "char \<Rightarrow> bool" where
  "bytes_isspace c = (c \<in> set [CHR 0x20, CHR 0x09, CHR 0x0A, CHR 0x0D, CHR 0x0B, CHR 0x0C])"

definition str_isspace :: "nat \<Rightarrow> bool" where
  "str_isspace c =
     ((9 \<le> c \<and> c \<le> 13) \<or> (28 \<le> c \<and> c \<le> 32) \<or> c = 133 \<or> c = 160 \<or> c = 5760
      \<or> (8192 \<le> c \<and> c \<le> 8202) \<or> c = 8232 \<or> c = 8233 \<or> c = 8239 \<or> c = 8287
      \<or> c = 12288)"

definition strip_with :: "('a \<Rightarrow> bool) \<Rightarrow> 'a list \<Rightarrow> 'a list" where
  "strip_with ws s = rev (dropWhile ws (rev (dropWhile ws s)))"

definition bytes_strip :: "bytes \<Rightarrow> bytes" where
  "bytes_strip = strip_with bytes_isspace"

definition str_strip :: "str \<Rightarrow> str" where
  "str_strip = strip_with str_isspace"

text \<open>
  \<open>s.split(sep, maxsplit)\<close> for a non-empty separator: \<open>find_sep\<close> cuts \<open>s\<close> at the
  first occurrence of \<open>sep\<close>, \<open>str_splitn\<close> cuts at most \<open>n\<close> times from the left, and
  \<open>str_split\<close> (no limit) cuts at every occurrence: every cut consumes at least one
  character, so \<open>length s\<close> cuts are never exceeded.
\<close>

fun find_sep :: "'a list \<Rightarrow> 'a list \<Rightarrow> ('a list \<times> 'a list) option" where
  "find_sep sep [] = None"
| "find_sep sep (c # cs) =
     (if prefix sep (c # cs) then Some ([], drop (length sep) (c # cs))
      else (case find_sep sep cs of
              None \<Rightarrow> None
            | Some (a, b) \<Rightarrow> Some (c # a, b)))"

fun str_splitn :: "'a list \<Rightarrow> nat \<Rightarrow> 'a list \<Rightarrow> 'a list list" where
  "str_splitn sep 0 s = [s]"
| "str_splitn sep (Suc n) s =
     (case find_sep sep s of
        None \<Rightarrow> [s]
      | Some (a, b) \<Rightarrow> a # str_splitn sep n b)"

definition str_split :: "'a list \<Rightarrow> 'a list \<Rightarrow> 'a list list" where
  "str_split sep s = str_splitn sep (length s) s"

text \<open>\<open>os.path.join(a, b)\<close> of \<open>posixpath\<close>, for two components.\<close>

definition path_join :: "str \<Rightarrow> str \<Rightarrow> str" where
  "path_join a b =
     (if prefix os_sep b then b
      else if a = [] \<or> suffix os_sep a then a @ b
      else a @ os_sep @ b)"

subsection \<open>What the module gets from outside\<close>

text \<open>
  The operating system and the helper \<open>to_text\<close> of \<open>virtualenvapi.util\<close> (a module
  that is not part of the sources at hand) are parameters:
  \<^item> \<open>environ\<close>: \<open>os.environ\<close>;
  \<^item> \<open>expand\<close>: \<open>os.path.expanduser\<close> after \<open>os.path.expandvars\<close>;
  \<^item> \<open>isfile\<close>: \<open>os.path.isfile\<close>;
  \<^item> \<open>popen\<close>: \<open>subprocess.Popen(args, cwd, env)\<close> followed by \<open>communicate()\<close>:
    the text of the \<open>OSError\<close> when the process cannot be started, or else the
    return code with the captured stdout and stderr;
  \<^item> \<open>to_text\<close>: the decoding of captured bytes to text, \<open>None\<close> where the decoding
    raises \<open>UnicodeDecodeError\<close>.
\<close>

record world =
  environ :: "str \<rightharpoonup> str"
  expand :: "str \<Rightarrow> str"
  isfile :: "str \<Rightarrow> bool"
  popen :: "str list \<Rightarrow> str \<Rightarrow> (str \<rightharpoonup> str) \<Rightarrow> str + (int \<times> bytes \<times> bytes)"
  to_text :: "bytes \<Rightarrow> str option"

subsection \<open>Objects\<close>

text \<open>
  List objects live in a store, since \<open>global_pip_args\<close> is a list object bound as
  a class attribute (line 15) and \<open>+=\<close> on a list mutates the object in place.
  An instance has the attributes \<open>path\<close> and \<open>env\<close>, and the attribute
  \<open>global_pip_args\<close> only once line 20 has bound it.
\<close>

type_synonym addr = nat
type_synonym heap = "addr \<Rightarrow> str list"

definition class_global_pip_args :: addr where
  "class_global_pip_args = 0"

text \<open>The store once the class body has run.\<close>

definition class_heap :: heap where
  "class_heap = (\<lambda>_. [])(class_global_pip_args := [six_u ''--disable-pip-version-check''])"

record PipWrapper =
  path :: str
  global_pip_args :: "addr option"
  env :: "str \<rightharpoonup> str"

text \<open>
  Attribute lookup \<open>self.global_pip_args\<close>: the instance attribute if bound, the class
  attribute otherwise; the value is the list stored at that address.
\<close>

definition self_global_pip_args_addr :: "PipWrapper \<Rightarrow> addr" where
  "self_global_pip_args_addr self =
     (case global_pip_args self of Some a \<Rightarrow> a | None \<Rightarrow> class_global_pip_args)"

definition self_global_pip_args :: "heap \<Rightarrow> PipWrapper \<Rightarrow> str list" where
  "self_global_pip_args h self = h (self_global_pip_args_addr self)"

text \<open>
  \<open>__init__\<close> (lines 17-21). \<open>self.global_pip_args += ys\<close> looks the attribute up
  (no instance attribute yet: the class's list), extends that list object in place and
  binds the instance attribute to the same object.
\<close>

definition init :: "world \<Rightarrow> heap \<Rightarrow> str \<Rightarrow> str option \<Rightarrow> PipWrapper \<times> heap" where
  "init W h p cache =
     (case cache of
        None \<Rightarrow> (\<lparr>path = p, global_pip_args = None, env = environ W\<rparr>, h)
      | Some c \<Rightarrow>
          (let a = class_global_pip_args;
               h' = h(a := h a @ [six_u ''--cache-dir'', expand W c])
           in (\<lparr>path = p, global_pip_args = Some a, env = environ W\<rparr>, h')))"

text \<open>A sequence of constructor calls, each given its world, path and cache.\<close>

fun inits :: "(world \<times> str \<times> str option) list \<Rightarrow> heap \<Rightarrow> heap" where
  "inits [] h = h"
| "inits ((W, p, cache) # cs) h = inits cs (snd (init W h p cache))"

subsection \<open>Failures and observable events\<close>

text \<open>
  A \<open>CalledProcessError\<close> object has the attributes \<open>returncode\<close>, \<open>cmd\<close> and
  \<open>output\<close>, and the tuple \<open>args\<close> of the three arguments of its constructor. The
  \<open>output\<close> attribute holds the pair \<open>(stdout, stderr)\<close> where line 47 raises the
  object and stdout alone after line 56; \<open>args\<close> is never assigned to.
  The three package exceptions of \<open>virtualenvapi.exceptions\<close> take one tuple.
\<close>

datatype cpe_output = OutErr bytes bytes | Out bytes

datatype error =
    OSError str
  | CalledProcessError int str cpe_output "int \<times> str \<times> cpe_output"
  | UnicodeDecodeError
  | PackageInstallationException "int \<times> cpe_output \<times> str"
  | PackageRemovalException "int \<times> cpe_output \<times> str"
  | PackageWheelException "int \<times> cpe_output \<times> str"
  | IndexError

datatype event =
    Popen "str list" str "str \<rightharpoonup> str"
  | Print bytes bytes

subsection \<open>Methods\<close>

definition pip_rpath :: str where
  "pip_rpath = path_join (six_u ''bin'') (six_u ''pip'')"

definition exists :: "world \<Rightarrow> PipWrapper \<Rightarrow> bool" where
  "exists W self = isfile W (path_join (path self) pip_rpath)"

text \<open>The body of the \<open>try\<close> of \<open>_execute\<close> (lines 42-47).\<close>

definition execute_try ::
  "world \<Rightarrow> PipWrapper \<Rightarrow> str list \<Rightarrow> event list \<times> (error + bytes \<times> bytes)" where
  "execute_try W self args =
     (case popen W args (path self) (env self) of
        Inl e \<Rightarrow> ([Popen args (path self) (env self)], Inl (OSError e))
      | Inr (returncode, stdout, stderr) \<Rightarrow>
          if returncode \<noteq> 0 then
            (case args of
               [] \<Rightarrow> ([Popen args (path self) (env self), Print stdout stderr], Inl IndexError)
             | a0 # _ \<Rightarrow>
                 ([Popen args (path self) (env self), Print stdout stderr],
                  Inl (CalledProcessError returncode a0 (OutErr stdout stderr)
                         (returncode, a0, OutErr stdout stderr))))
          else ([Popen args (path self) (env self)], Inr (stdout, stderr)))"

text \<open>
  \<open>_execute\<close> (lines 36-59): the argument vector, the \<open>try\<close>, its handlers and its
  \<open>else\<close> branch. The second handler assigns to the \<open>output\<close> attribute and raises the
  same object again. The \<open>else\<close> branch is outside the handlers: a failure of
  \<open>to_text\<close>, on stdout first and on stderr next, leaves \<open>_execute\<close> as it is.
\<close>

definition pip_argv :: "heap \<Rightarrow> PipWrapper \<Rightarrow> str list \<Rightarrow> str list" where
  "pip_argv h self args = [pip_rpath] @ self_global_pip_args h self @ args"

definition execute ::
  "world \<Rightarrow> heap \<Rightarrow> PipWrapper \<Rightarrow> str list \<Rightarrow> event list \<times> (error + str \<times> str)" where
  "execute W h self args0 =
     (let args = pip_argv h self args0 in
      case execute_try W self args of
        (ev, Inl (OSError e)) \<Rightarrow>
          (case args of
             [] \<Rightarrow> (ev, Inl IndexError)
           | prog # _ \<Rightarrow>
               (case prog of
                  [] \<Rightarrow> (ev, Inl IndexError)
                | c # _ \<Rightarrow>
                    (let prog' = (if [c] \<noteq> os_sep then path_join (path self) prog else prog)
                     in (ev, Inl (OSError (prog' @ six_u '': '' @ e))))))
      | (ev, Inl (CalledProcessError returncode cmd (OutErr output err) args)) \<Rightarrow>
          (ev, Inl (CalledProcessError returncode cmd (Out output) args))
      | (ev, Inl e) \<Rightarrow> (ev, Inl e)
      | (ev, Inr (stdout, stderr)) \<Rightarrow>
          (case to_text W (bytes_strip stdout) of
             None \<Rightarrow> (ev, Inl UnicodeDecodeError)
           | Some stdout' \<Rightarrow>
               (case to_text W (bytes_strip stderr) of
                  None \<Rightarrow> (ev, Inl UnicodeDecodeError)
                | Some stderr' \<Rightarrow> (ev, Inr (stdout', stderr')))))"

text \<open>Lines 65-66 and 87-88: \<open>if options is None: options = []\<close>.\<close>

definition options_or_empty :: "str list option \<Rightarrow> str list" where
  "options_or_empty options = (case options of None \<Rightarrow> [] | Some os \<Rightarrow> os)"

definition install ::
  "world \<Rightarrow> heap \<Rightarrow> PipWrapper \<Rightarrow> str \<Rightarrow> str list option \<Rightarrow> event list \<times> (error + str \<times> str)" where
  "install W h self package_name options =
     (let options' = options_or_empty options;
          args = [six_u ''install'', package_name] @ options'
      in case execute W h self args of
           (ev, Inl (CalledProcessError returncode cmd output args)) \<Rightarrow>
             (ev, Inl (PackageInstallationException (returncode, output, package_name)))
         | r \<Rightarrow> r)"

definition uninstall ::
  "world \<Rightarrow> heap \<Rightarrow> PipWrapper \<Rightarrow> str \<Rightarrow> event list \<times> (error + str \<times> str)" where
  "uninstall W h self package_name =
     (let args = [six_u ''uninstall'', six_u ''-y'', package_name]
      in case execute W h self args of
           (ev, Inl (CalledProcessError returncode cmd output args)) \<Rightarrow>
             (ev, Inl (PackageRemovalException (returncode, output, package_name)))
         | r \<Rightarrow> r)"

definition wheel ::
  "world \<Rightarrow> heap \<Rightarrow> PipWrapper \<Rightarrow> str \<Rightarrow> str list option \<Rightarrow> event list \<times> (error + str \<times> str)" where
  "wheel W h self package_name options =
     (let options' = options_or_empty options;
          args = [six_u ''wheel'', package_name] @ options'
      in case execute W h self args of
           (ev, Inl (CalledProcessError returncode cmd output args)) \<Rightarrow>
             (ev, Inl (PackageWheelException (returncode, output, package_name)))
         | r \<Rightarrow> r)"

text \<open>
  One pass through the body of the loop of \<open>search\<close> (lines 106-116) for the line
  \<open>result\<close>: the binding it stores in \<open>packages\<close>, or \<open>None\<close> where it continues
  with the next line. Unpacking into \<open>name, description\<close> raises \<open>ValueError\<close> unless
  the split gave exactly two parts, and the handler continues.
\<close>

definition search_body :: "str \<Rightarrow> error + (str \<times> str) option" where
  "search_body result =
     (case str_splitn (six_u '' - '') 1 result of
        [name, description] \<Rightarrow>
          (let name' = str_strip name in
           if length name' = 0 then Inr None
           else (case str_splitn (six_u ''<br'') 1 description of
                   [] \<Rightarrow> Inl IndexError
                 | d # _ \<Rightarrow> Inr (Some (name', str_strip d))))
      | _ \<Rightarrow> Inr None)"

text \<open>The loop over the lines still to read, with the dictionary built so far.\<close>

fun search_loop :: "str list \<Rightarrow> (str \<rightharpoonup> str) \<Rightarrow> error + (str \<rightharpoonup> str)" where
  "search_loop [] packages = Inr packages"
| "search_loop (result # results) packages =
     (case search_body result of
        Inl e \<Rightarrow> Inl e
      | Inr None \<Rightarrow> search_loop results packages
      | Inr (Some (name, description)) \<Rightarrow>
          search_loop results (packages(name \<mapsto> description)))"

text \<open>Lines 102 and 105-117: from the text of stdout to the dictionary.\<close>

definition search_parse :: "str \<Rightarrow> error + (str \<rightharpoonup> str)" where
  "search_parse stdout = search_loop (str_split os_linesep stdout) Map.empty"

definition search ::
  "world \<Rightarrow> heap \<Rightarrow> PipWrapper \<Rightarrow> str \<Rightarrow> event list \<times> (error + (str \<rightharpoonup> str))" where
  "search W h self search_term =
     (case execute W h self [six_u ''search'', search_term] of
        (ev, Inl e) \<Rightarrow> (ev, Inl e)
      | (ev, Inr (stdout, _)) \<Rightarrow> (ev, search_parse stdout))"

subsection \<open>The parsing of \<open>search\<close> as the specification words it\<close>

text \<open>
  Independent of the definitions above: the first position at which the separator
  occurs, found by scanning the positions from the left.
\<close>

definition cut_at :: "'a list \<Rightarrow> 'a list \<Rightarrow> ('a list \<times> 'a list) option" where
  "cut_at sep s =
     (case find (\<lambda>i. take (length sep) (drop i s) = sep) [0..<Suc (length s)] of
        None \<Rightarrow> None
      | Some i \<Rightarrow> Some (take i s, drop (i + length sep) s))"

text \<open>The lines of a text: the pieces between line feeds.\<close>

fun lines_of :: "str \<Rightarrow> str list" where
  "lines_of [] = [[]]"
| "lines_of (c # cs) =
     (if c = 10 then [] # lines_of cs
      else (case lines_of cs of
              [] \<Rightarrow> [[c]]
            | l # ls \<Rightarrow> (c # l) # ls))"

text \<open>
  Trimming: with \<open>n\<close> whitespace characters at the start of the text and \<open>m\<close> at its
  end, what remains is the text without its first \<open>n\<close> and its last \<open>m\<close> characters
  (nothing, when the text is whitespace only).
\<close>

definition trimmed :: "str \<Rightarrow> str" where
  "trimmed s =
     (let n = length (takeWhile str_isspace s);
          m = length (takeWhile str_isspace (rev s))
      in take (length s - n - m) (drop n s))"

text \<open>
  A line is split on \<open>" - "\<close> into name and description; a line without the separator
  or with an empty trimmed name is skipped; both parts are trimmed and the description
  is truncated at \<open>"<br"\<close> if present.
\<close>

definition spec_entry :: "str \<Rightarrow> (str \<times> str) option" where
  "spec_entry line =
     (case cut_at (six_u '' - '') line of
        None \<Rightarrow> None
      | Some (name, description) \<Rightarrow>
          if trimmed name = [] then None
          else Some (trimmed name,
                     trimmed (case cut_at (six_u ''<br'') description of
                                  None \<Rightarrow> description
                                | Some (before, _) \<Rightarrow> before)))"

definition spec_search :: "str \<Rightarrow> (str \<rightharpoonup> str)" where
  "spec_search stdout =
     fold (\<lambda>line m. case spec_entry line of None \<Rightarrow> m | Some (n, d) \<Rightarrow> m(n \<mapsto> d))
       (lines_of stdout) Map.empty"

subsection \<open>Concrete inputs\<close>

text \<open>
  The decoding of the examples is UTF-8, as \<open>bytes.decode("utf-8")\<close> does it: a byte
  below 128 is its own code point; a lead byte announces one, two or three continuation
  bytes (128 to 191); overlong forms, surrogates and code points beyond U+10FFFF are
  refused, as is any other byte.
\<close>

definition utf8_cont :: "nat \<Rightarrow> bool" where
  "utf8_cont b = (128 \<le> b \<and> b < 192)"

fun utf8_decode :: "nat list \<Rightarrow> str option" where
  "utf8_decode [] = Some []"
| "utf8_decode [b] = (if b < 128 then Some [b] else None)"
| "utf8_decode [b, c1] =
     (if b < 128 then map_option ((#) b) (utf8_decode [c1])
      else if 194 \<le> b \<and> b < 224 \<and> utf8_cont c1 then Some [(b - 192) * 64 + (c1 - 128)]
      else None)"
| "utf8_decode [b, c1, c2] =
     (if b < 128 then map_option ((#) b) (utf8_decode [c1, c2])
      else if 194 \<le> b \<and> b < 224 \<and> utf8_cont c1 then
        map_option ((#) ((b - 192) * 64 + (c1 - 128))) (utf8_decode [c2])
      else if 224 \<le> b \<and> b < 240 \<and> utf8_cont c1 \<and> utf8_cont c2
              \<and> (if b = 224 then 160 \<le> c1 else True) \<and> (if b = 237 then c1 < 160 else True)
      then Some [(b - 224) * 4096 + (c1 - 128) * 64 + (c2 - 128)]
      else None)"
| "utf8_decode (b # c1 # c2 # c3 # bs) =
     (if b < 128 then map_option ((#) b) (utf8_decode (c1 # c2 # c3 # bs))
      else if 194 \<le> b \<and> b < 224 \<and> utf8_cont c1 then
        map_option ((#) ((b - 192) * 64 + (c1 - 128))) (utf8_decode (c2 # c3 # bs))
      else if 224 \<le> b \<and> b < 240 \<and> utf8_cont c1 \<and> utf8_cont c2
              \<and> (if b = 224 then 160 \<le> c1 else True) \<and> (if b = 237 then c1 < 160 else True)
      then map_option ((#) ((b - 224) * 4096 + (c1 - 128) * 64 + (c2 - 128)))
             (utf8_decode (c3 # bs))
      else if 240 \<le> b \<and> b < 245 \<and> utf8_cont c1 \<and> utf8_cont c2 \<and> utf8_cont c3
              \<and> (if b = 240 then 144 \<le> c1 else True) \<and> (if b = 244 then c1 < 144 else True)
      then map_option
             ((#) ((b - 240) * 262144 + (c1 - 128) * 4096 + (c2 - 128) * 64 + (c3 - 128)))
             (utf8_decode bs)
      else None)"

text \<open>
  A world for the examples: one environment variable, paths without \<open>$\<close> or \<open>~\<close>
  (which expansion leaves alone), the executable present under \<open>/venv\<close> only, a
  subprocess with the fixed outcome \<open>r\<close>, and output decoded as UTF-8.
\<close>

definition example_world :: "str + (int \<times> bytes \<times> bytes) \<Rightarrow> world" where
  "example_world r =
     \<lparr>environ = [six_u ''HOME'' \<mapsto> six_u ''/root''],
      expand = (\<lambda>s. s),
      isfile = (\<lambda>p. p = six_u ''/venv/bin/pip''),
      popen = (\<lambda>_ _ _. r),
      to_text = (\<lambda>b. utf8_decode (map of_char b))\<rparr>"

definition example_self :: PipWrapper where
  "example_self = \<lparr>path = six_u ''/venv'', global_pip_args = None, env = Map.empty\<rparr>"

section \<open>Properties\<close>

subsection \<open>The executable's path\<close>

lemma pip_rpath_eq: "pip_rpath = six_u ''bin/pip''"
  by (simp add: pip_rpath_def path_join_def six_u_def os_sep_def suffix_to_prefix)

lemma pip_rpath_Cons: "pip_rpath = 98 # six_u ''in/pip''"
  by (simp add: pip_rpath_eq six_u_def)

lemma join_pip_rpath:
  "path_join p pip_rpath =
     (if p = [] \<or> suffix os_sep p then p @ pip_rpath else p @ os_sep @ pip_rpath)"
  by (simp add: path_join_def pip_rpath_Cons os_sep_def six_u_def)

subsection \<open>The three ways out of \<open>_execute\<close>\<close>

lemma execute_oserror:
  assumes "popen W (pip_argv h self args) (path self) (env self) = Inl e"
  shows "execute W h self args =
           ([Popen (pip_argv h self args) (path self) (env self)],
            Inl (OSError (path_join (path self) pip_rpath @ six_u '': '' @ e)))"
  using assms
  by (simp add: execute_def execute_try_def Let_def pip_argv_def pip_rpath_Cons os_sep_def
      six_u_def)

lemma execute_nonzero:
  assumes "popen W (pip_argv h self args) (path self) (env self) = Inr (rc, out, err)"
    and "rc \<noteq> 0"
  shows "execute W h self args =
           ([Popen (pip_argv h self args) (path self) (env self), Print out err],
            Inl (CalledProcessError rc pip_rpath (Out out) (rc, pip_rpath, OutErr out err)))"
  using assms
  by (simp add: execute_def execute_try_def Let_def pip_argv_def)

lemma execute_zero:
  assumes "popen W (pip_argv h self args) (path self) (env self) = Inr (0, out, err)"
  shows "execute W h self args =
           ([Popen (pip_argv h self args) (path self) (env self)],
            (case to_text W (bytes_strip out) of
               None \<Rightarrow> Inl UnicodeDecodeError
             | Some stdout' \<Rightarrow>
                 (case to_text W (bytes_strip err) of
                    None \<Rightarrow> Inl UnicodeDecodeError
                  | Some stderr' \<Rightarrow> Inr (stdout', stderr'))))"
  using assms
  by (simp add: execute_def execute_try_def Let_def pip_argv_def split: option.splits)

lemma execute_try_raises:
  assumes "popen W (pip_argv h self args) (path self) (env self) = Inr (rc, out, err)"
    and "rc \<noteq> 0"
  shows "snd (execute_try W self (pip_argv h self args)) =
           Inl (CalledProcessError rc pip_rpath (OutErr out err) (rc, pip_rpath, OutErr out err))"
  using assms
  by (simp add: execute_try_def pip_argv_def)

subsection \<open>\<open>install\<close>\<close>

text \<open>
  Claim C1. For every package name, every list of options and every non-zero exit code
  of the subprocess, \<open>install\<close> raises \<open>PackageInstallationException\<close>, and
  its payload holds that exit code, the captured stdout and that package name.
\<close>

theorem install_failure:
  assumes "popen W (pip_argv h self ([six_u ''install'', package_name] @ options_or_empty options))
             (path self) (env self) = Inr (rc, out, err)"
    and "rc \<noteq> 0"
  shows "snd (install W h self package_name options) =
           Inl (PackageInstallationException (rc, Out out, package_name))"
  using assms by (simp add: install_def execute_nonzero)

theorem install_failure_witness:
  "snd (install (example_world (Inr (2, ''out'', ''err''))) class_heap example_self
         (six_u ''nose'') None) =
     Inl (PackageInstallationException (2, Out ''out'', six_u ''nose''))"
  using install_failure [of "example_world (Inr (2, ''out'', ''err''))" class_heap example_self
      "six_u ''nose''" None 2 "''out''" "''err''"]
  by (simp add: example_world_def)

text \<open>
  Claim C6, as stated, fails: exit code 0 does not exclude a failure. For a subprocess
  that exits with code 0 after writing the bytes \<open>ok\<close>, a space and \<open>0xFF\<close> to stdout,
  the decoding of line 59 fails outside every handler and \<open>install\<close> raises
  \<open>UnicodeDecodeError\<close>.
\<close>

theorem install_undecodable_counterexample:
  "snd (install (example_world (Inr (0, ''ok '' @ [CHR 0xFF], []))) class_heap example_self
         (six_u ''nose'') None) =
     Inl UnicodeDecodeError"
  by (simp add: install_def options_or_empty_def execute_zero example_world_def bytes_strip_def
      strip_with_def bytes_isspace_def utf8_cont_def)

text \<open>
  Claim C6, amended. For every package name, when the subprocess exits with code 0 and
  both stdout and stderr, each stripped of surrounding whitespace, can be decoded,
  \<open>install\<close> raises nothing and returns the pair of the two decoded texts. When one of
  the two cannot be decoded, \<open>install\<close> returns nothing: the decoding failure reaches the
  caller.
\<close>

theorem install_exit_zero:
  assumes "popen W (pip_argv h self ([six_u ''install'', package_name] @ options_or_empty options))
             (path self) (env self) = Inr (0, out, err)"
  shows "(to_text W (bytes_strip out) = Some stdout' \<and> to_text W (bytes_strip err) = Some stderr'
            \<longrightarrow> snd (install W h self package_name options) = Inr (stdout', stderr'))
         \<and> (to_text W (bytes_strip out) = None \<or> to_text W (bytes_strip err) = None
            \<longrightarrow> snd (install W h self package_name options) = Inl UnicodeDecodeError)"
  using assms by (auto simp add: install_def execute_zero split: option.splits)

theorem install_exit_zero_witness:
  "snd (install (example_world (Inr (0, '' ok  '', ''warn'' @ [CHR 0x0A]))) class_heap
         example_self (six_u ''nose'') None) =
     Inr (six_u ''ok'', six_u ''warn'')
   \<and> snd (install (example_world (Inr (0, ''ok'', [CHR 0xC3]))) class_heap example_self
           (six_u ''nose'') None) =
     Inl UnicodeDecodeError"
  using install_exit_zero [of "example_world (Inr (0, '' ok  '', ''warn'' @ [CHR 0x0A]))"
      class_heap example_self "six_u ''nose''" None "'' ok  ''" "''warn'' @ [CHR 0x0A]"
      "six_u ''ok''" "six_u ''warn''"]
    install_exit_zero [of "example_world (Inr (0, ''ok'', [CHR 0xC3]))"
      class_heap example_self "six_u ''nose''" None "''ok''" "[CHR 0xC3]"]
  by (simp add: example_world_def bytes_strip_def strip_with_def bytes_isspace_def six_u_def)

subsection \<open>\<open>exists\<close>\<close>

text \<open>
  Claim C8. \<open>exists()\<close> is true exactly when \<open>os.path.isfile\<close> holds of the environment
  root joined with \<open>bin/pip\<close>: the root followed by \<open>/bin/pip\<close>, with no second
  slash after a root that ends in one, and \<open>bin/pip\<close> alone for the empty root. The
  method assigns to nothing: it is a function of the file system and of \<open>self.path\<close>
  alone, and its only result is the truth value.
\<close>

theorem exists_iff:
  "exists W self = isfile W (path_join (path self) (six_u ''bin/pip''))
   \<and> path_join (path self) (six_u ''bin/pip'') =
       (if path self = [] then six_u ''bin/pip''
        else if last (path self) = 47 then path self @ six_u ''bin/pip''
        else path self @ six_u ''/bin/pip'')"
  by (cases "path self" rule: rev_cases)
     (simp_all add: exists_def pip_rpath_eq path_join_def os_sep_def six_u_def suffix_to_prefix)

subsection \<open>Failures of \<open>_execute\<close> and their wrappers\<close>

text \<open>
  Claim C9. When starting the subprocess fails with an \<open>OSError\<close>, \<open>_execute\<close> raises
  an \<open>OSError\<close> whose message is the resolved program path, a colon and a space, and the
  text of the underlying error. The program \<open>bin/pip\<close> is not absolute, so the resolved
  path is \<open>bin/pip\<close> joined onto the environment root.
\<close>

theorem launch_failure:
  assumes "popen W (pip_argv h self args) (path self) (env self) = Inl e"
  shows "snd (execute W h self args) =
           Inl (OSError (path_join (path self) (six_u ''bin/pip'') @ six_u '': '' @ e))
         \<and> \<not> prefix os_sep (six_u ''bin/pip'')
         \<and> path_join (path self) (six_u ''bin/pip'') =
             (if path self = [] \<or> suffix os_sep (path self) then path self @ six_u ''bin/pip''
              else path self @ os_sep @ six_u ''bin/pip'')"
  using assms join_pip_rpath [of "path self"]
  by (simp add: execute_oserror pip_rpath_eq) (simp add: six_u_def os_sep_def)

theorem launch_failure_witness:
  "snd (execute (example_world (Inl (six_u ''[Errno 2] No such file or directory''))) class_heap
         example_self [six_u ''search'', six_u ''nose'']) =
     Inl (OSError (six_u ''/venv/bin/pip: [Errno 2] No such file or directory''))"
  using launch_failure [of "example_world (Inl (six_u ''[Errno 2] No such file or directory''))"
      class_heap example_self "[six_u ''search'', six_u ''nose'']"
      "six_u ''[Errno 2] No such file or directory''"]
  by (simp add: example_world_def example_self_def path_join_def os_sep_def six_u_def
      suffix_to_prefix)

text \<open>
  Claim C5. For every package name and every non-zero exit code, \<open>uninstall\<close> raises
  \<open>PackageRemovalException\<close> and \<open>wheel\<close> raises \<open>PackageWheelException\<close>, each
  with the exit code, the captured stdout and the package name; and whatever the
  subprocess does, neither method lets a \<open>CalledProcessError\<close> reach its caller.
\<close>

theorem uninstall_wheel_failures:
  "(popen W (pip_argv h self [six_u ''uninstall'', six_u ''-y'', package_name])
        (path self) (env self) = Inr (rc, out, err) \<and> rc \<noteq> 0 \<longrightarrow>
      snd (uninstall W h self package_name) =
        Inl (PackageRemovalException (rc, Out out, package_name)))
   \<and> (popen W (pip_argv h self ([six_u ''wheel'', package_name] @ options_or_empty options))
        (path self) (env self) = Inr (rc, out, err) \<and> rc \<noteq> 0 \<longrightarrow>
      snd (wheel W h self package_name options) =
        Inl (PackageWheelException (rc, Out out, package_name)))
   \<and> (\<forall>rc' cmd outp a.
        snd (uninstall W h self package_name) \<noteq> Inl (CalledProcessError rc' cmd outp a)
        \<and> snd (wheel W h self package_name options) \<noteq> Inl (CalledProcessError rc' cmd outp a))"
proof (intro conjI impI allI)
  assume "popen W (pip_argv h self [six_u ''uninstall'', six_u ''-y'', package_name])
        (path self) (env self) = Inr (rc, out, err) \<and> rc \<noteq> 0"
  then show "snd (uninstall W h self package_name) =
        Inl (PackageRemovalException (rc, Out out, package_name))"
    by (simp add: uninstall_def execute_nonzero)
next
  assume "popen W (pip_argv h self ([six_u ''wheel'', package_name] @ options_or_empty options))
        (path self) (env self) = Inr (rc, out, err) \<and> rc \<noteq> 0"
  then show "snd (wheel W h self package_name options) =
        Inl (PackageWheelException (rc, Out out, package_name))"
    by (simp add: wheel_def execute_nonzero)
next
  fix rc' cmd outp a
  show "snd (uninstall W h self package_name) \<noteq> Inl (CalledProcessError rc' cmd outp a)"
    by (simp add: uninstall_def Let_def split: prod.splits sum.splits error.splits)
next
  fix rc' cmd outp a
  show "snd (wheel W h self package_name options) \<noteq> Inl (CalledProcessError rc' cmd outp a)"
    by (simp add: wheel_def Let_def split: prod.splits sum.splits error.splits)
qed

theorem uninstall_wheel_failures_witness:
  "snd (uninstall (example_world (Inr (1, ''out'', ''err''))) class_heap example_self
         (six_u ''nose'')) =
     Inl (PackageRemovalException (1, Out ''out'', six_u ''nose''))
   \<and> snd (wheel (example_world (Inr (1, ''out'', ''err''))) class_heap example_self
           (six_u ''nose'') (Some [six_u ''--no-deps''])) =
     Inl (PackageWheelException (1, Out ''out'', six_u ''nose''))"
  using uninstall_wheel_failures [of "example_world (Inr (1, ''out'', ''err''))" class_heap
      example_self "six_u ''nose''" 1 "''out''" "''err''" "Some [six_u ''--no-deps'']"]
  by (simp add: example_world_def)

text \<open>
  Claim C2, as stated, fails: the payload that the public methods wrap does not hold
  stderr. For a subprocess that exits with code 1 after writing \<open>out\<close> to stdout and
  \<open>err\<close> to stderr, the payload of the failure of \<open>install\<close> is not the one with both
  outputs; it holds \<open>out\<close> alone, and it is the same payload when stderr is \<open>other\<close>
  instead.
\<close>

theorem stderr_dropped_counterexample:
  "snd (install (example_world (Inr (1, ''out'', ''err''))) class_heap example_self
         (six_u ''nose'') None) \<noteq>
     Inl (PackageInstallationException (1, OutErr ''out'' ''err'', six_u ''nose''))
   \<and> snd (install (example_world (Inr (1, ''out'', ''err''))) class_heap example_self
         (six_u ''nose'') None) =
     Inl (PackageInstallationException (1, Out ''out'', six_u ''nose''))
   \<and> snd (install (example_world (Inr (1, ''out'', ''other''))) class_heap example_self
         (six_u ''nose'') None) =
     Inl (PackageInstallationException (1, Out ''out'', six_u ''nose''))"
  by (simp add: install_def options_or_empty_def execute_nonzero example_world_def)

text \<open>
  Claim C2, amended. For every invocation that exits non-zero, the \<open>CalledProcessError\<close>
  that line 47 raises carries the exit code, the command \<open>bin/pip\<close> and the pair of
  stdout and stderr, as its \<open>output\<close> attribute and in its \<open>args\<close>. The handler of
  lines 54-57 replaces the \<open>output\<close> attribute by stdout alone and raises the same
  object again: the failure that leaves \<open>_execute\<close> still carries the exit code and both
  outputs in its \<open>args\<close>, while its \<open>output\<close> attribute is stdout alone. The public
  methods wrap the \<open>returncode\<close> and \<open>output\<close> attributes, so the payload of the failures
  of \<open>install\<close>, \<open>uninstall\<close> and \<open>wheel\<close> is the exit code, the captured stdout and the
  package name, without stderr; \<open>search\<close> lets the \<open>CalledProcessError\<close> through
  unchanged.
\<close>

theorem execute_failure_payload:
  assumes "popen W (pip_argv h self args) (path self) (env self) = Inr (rc, out, err)"
    and "rc \<noteq> 0"
  shows "snd (execute_try W self (pip_argv h self args)) =
           Inl (CalledProcessError rc (six_u ''bin/pip'') (OutErr out err)
                  (rc, six_u ''bin/pip'', OutErr out err))
         \<and> snd (execute W h self args) =
           Inl (CalledProcessError rc (six_u ''bin/pip'') (Out out)
                  (rc, six_u ''bin/pip'', OutErr out err))
         \<and> (args = [six_u ''install'', package_name] @ options_or_empty options \<longrightarrow>
              snd (install W h self package_name options) =
                Inl (PackageInstallationException (rc, Out out, package_name)))
         \<and> (args = [six_u ''uninstall'', six_u ''-y'', package_name] \<longrightarrow>
              snd (uninstall W h self package_name) =
                Inl (PackageRemovalException (rc, Out out, package_name)))
         \<and> (args = [six_u ''wheel'', package_name] @ options_or_empty options \<longrightarrow>
              snd (wheel W h self package_name options) =
                Inl (PackageWheelException (rc, Out out, package_name)))
         \<and> (args = [six_u ''search'', package_name] \<longrightarrow>
              snd (search W h self package_name) =
                Inl (CalledProcessError rc (six_u ''bin/pip'') (Out out)
                       (rc, six_u ''bin/pip'', OutErr out err)))"
  using assms
  by (auto simp add: execute_try_raises execute_nonzero install_def uninstall_def wheel_def
      search_def pip_rpath_eq)

theorem execute_failure_payload_witness:
  "snd (execute_try (example_world (Inr (1, ''out'', ''err''))) example_self
         (pip_argv class_heap example_self [six_u ''uninstall'', six_u ''-y'', six_u ''nose''])) =
     Inl (CalledProcessError 1 (six_u ''bin/pip'') (OutErr ''out'' ''err'')
            (1, six_u ''bin/pip'', OutErr ''out'' ''err''))
   \<and> snd (execute (example_world (Inr (1, ''out'', ''err''))) class_heap example_self
         [six_u ''uninstall'', six_u ''-y'', six_u ''nose'']) =
     Inl (CalledProcessError 1 (six_u ''bin/pip'') (Out ''out'')
            (1, six_u ''bin/pip'', OutErr ''out'' ''err''))
   \<and> snd (uninstall (example_world (Inr (1, ''out'', ''err''))) class_heap example_self
         (six_u ''nose'')) =
     Inl (PackageRemovalException (1, Out ''out'', six_u ''nose''))"
  using execute_failure_payload [of "example_world (Inr (1, ''out'', ''err''))" class_heap
      example_self "[six_u ''uninstall'', six_u ''-y'', six_u ''nose'']" 1 "''out''" "''err''"
      "six_u ''nose''" None]
  by (simp add: example_world_def options_or_empty_def six_u_def)

subsection \<open>The global flags\<close>

text \<open>
  Claim C3 does not hold of the code. Line 20 extends the list object of the class
  attribute in place, so every instance reads the same list:
  \<^item> a wrapper built with the cache directory \<open>/cache\<close> has the flags
    \<open>--disable-pip-version-check --cache-dir /cache\<close>;
  \<^item> a wrapper built after it without a cache directory has the same three flags;
  \<^item> a second wrapper built with the same path and cache directory has five flags,
    the cache directory twice;
  \<^item> and from then on so has the first wrapper.
\<close>

theorem init_leaks_cache_dir:
  "self_global_pip_args
     (snd (init (example_world (Inl [])) class_heap (six_u ''/a'') (Some (six_u ''/cache''))))
     (fst (init (example_world (Inl [])) class_heap (six_u ''/a'') (Some (six_u ''/cache'')))) =
     [six_u ''--disable-pip-version-check'', six_u ''--cache-dir'', six_u ''/cache'']
   \<and> self_global_pip_args
       (snd (init (example_world (Inl []))
              (snd (init (example_world (Inl [])) class_heap (six_u ''/a'') (Some (six_u ''/cache''))))
              (six_u ''/b'') None))
       (fst (init (example_world (Inl []))
              (snd (init (example_world (Inl [])) class_heap (six_u ''/a'') (Some (six_u ''/cache''))))
              (six_u ''/b'') None)) =
     [six_u ''--disable-pip-version-check'', six_u ''--cache-dir'', six_u ''/cache'']
   \<and> self_global_pip_args
       (snd (init (example_world (Inl []))
              (snd (init (example_world (Inl [])) class_heap (six_u ''/a'') (Some (six_u ''/cache''))))
              (six_u ''/a'') (Some (six_u ''/cache''))))
       (fst (init (example_world (Inl []))
              (snd (init (example_world (Inl [])) class_heap (six_u ''/a'') (Some (six_u ''/cache''))))
              (six_u ''/a'') (Some (six_u ''/cache'')))) =
     [six_u ''--disable-pip-version-check'', six_u ''--cache-dir'', six_u ''/cache'',
      six_u ''--cache-dir'', six_u ''/cache'']
   \<and> self_global_pip_args
       (snd (init (example_world (Inl []))
              (snd (init (example_world (Inl [])) class_heap (six_u ''/a'') (Some (six_u ''/cache''))))
              (six_u ''/a'') (Some (six_u ''/cache''))))
       (fst (init (example_world (Inl [])) class_heap (six_u ''/a'') (Some (six_u ''/cache'')))) =
     [six_u ''--disable-pip-version-check'', six_u ''--cache-dir'', six_u ''/cache'',
      six_u ''--cache-dir'', six_u ''/cache'']"
  by (simp add: init_def Let_def self_global_pip_args_def self_global_pip_args_addr_def
      class_heap_def class_global_pip_args_def example_world_def)

lemma init_fields:
  "path (fst (init W h p cache)) = p"
  "env (fst (init W h p cache)) = environ W"
  "self_global_pip_args_addr (fst (init W h p cache)) = class_global_pip_args"
  by (simp_all add: init_def Let_def self_global_pip_args_addr_def split: option.splits)

lemma init_heap:
  "snd (init W h p cache) class_global_pip_args =
     h class_global_pip_args @
       (case cache of None \<Rightarrow> [] | Some c \<Rightarrow> [six_u ''--cache-dir'', expand W c])"
  by (simp add: init_def Let_def split: option.splits)

text \<open>Constructor calls only ever append to the class's list.\<close>

lemma inits_grows: "\<exists>ys. inits cs h class_global_pip_args = h class_global_pip_args @ ys"
proof (induction cs arbitrary: h)
  case Nil
  show ?case by simp
next
  case (Cons c cs)
  obtain W p cache where c: "c = (W, p, cache)"
    by (cases c) auto
  from Cons.IH [of "snd (init W h p cache)"] obtain ys
    where "inits cs (snd (init W h p cache)) class_global_pip_args =
             snd (init W h p cache) class_global_pip_args @ ys"
    by blast
  then show ?case
    by (simp add: c init_heap)
qed

subsection \<open>What every invocation spawns\<close>

lemma execute_events:
  "fst (execute W h self args) = [Popen (pip_argv h self args) (path self) (env self)]
   \<or> (\<exists>out err. fst (execute W h self args) =
         [Popen (pip_argv h self args) (path self) (env self), Print out err])"
proof (cases "popen W (pip_argv h self args) (path self) (env self)")
  case (Inl e)
  then show ?thesis by (simp add: execute_oserror)
next
  case (Inr r)
  obtain rc out err where r: "r = (rc, out, err)"
    by (cases r) auto
  show ?thesis
  proof (cases "rc = 0")
    case True
    with Inr r show ?thesis by (simp add: execute_zero split: option.splits)
  next
    case False
    with Inr r show ?thesis by (simp add: execute_nonzero)
  qed
qed

lemma method_events:
  "fst (install W h self package_name options) =
     fst (execute W h self ([six_u ''install'', package_name] @ options_or_empty options))"
  "fst (uninstall W h self package_name) =
     fst (execute W h self [six_u ''uninstall'', six_u ''-y'', package_name])"
  "fst (wheel W h self package_name options) =
     fst (execute W h self ([six_u ''wheel'', package_name] @ options_or_empty options))"
  "fst (search W h self search_term) =
     fst (execute W h self [six_u ''search'', search_term])"
  by (simp_all add: install_def uninstall_def wheel_def search_def Let_def
      split: prod.splits sum.splits error.splits)

text \<open>
  Claim C7. Take a wrapper built for the root \<open>p\<close> in the world \<open>W0\<close>, after any
  constructor calls \<open>before\<close> and followed by any constructor calls \<open>after\<close>. Every
  invocation through \<open>_execute\<close> spawns exactly one process: its argument vector is
  \<open>bin/pip\<close>, then the global flags, then the arguments of the call; its working
  directory is \<open>p\<close>; its environment is the copy of \<open>os.environ\<close> taken at
  construction. The global flags begin with \<open>--disable-pip-version-check\<close> and, when
  the wrapper was given a cache directory, contain \<open>--cache-dir\<close> followed by the
  expanded directory. The events of \<open>install\<close>, \<open>uninstall\<close>, \<open>wheel\<close> and
  \<open>search\<close> are those of \<open>_execute\<close> on their subcommand's arguments.
\<close>

theorem execute_argv:
  assumes "init W0 (inits before class_heap) p cache = (self, h1)"
  shows "(fst (execute W (inits after h1) self args) =
            [Popen ([six_u ''bin/pip''] @ self_global_pip_args (inits after h1) self @ args)
               p (environ W0)]
          \<or> (\<exists>out err. fst (execute W (inits after h1) self args) =
            [Popen ([six_u ''bin/pip''] @ self_global_pip_args (inits after h1) self @ args)
               p (environ W0),
             Print out err]))
       \<and> (\<exists>rest. self_global_pip_args (inits after h1) self =
             six_u ''--disable-pip-version-check'' # rest)
       \<and> (\<forall>c. cache = Some c \<longrightarrow>
            (\<exists>pre post. self_global_pip_args (inits after h1) self =
               pre @ [six_u ''--cache-dir'', expand W0 c] @ post))
       \<and> fst (install W (inits after h1) self package_name options) =
           fst (execute W (inits after h1) self
                 ([six_u ''install'', package_name] @ options_or_empty options))
       \<and> fst (uninstall W (inits after h1) self package_name) =
           fst (execute W (inits after h1) self
                 [six_u ''uninstall'', six_u ''-y'', package_name])
       \<and> fst (wheel W (inits after h1) self package_name options) =
           fst (execute W (inits after h1) self
                 ([six_u ''wheel'', package_name] @ options_or_empty options))
       \<and> fst (search W (inits after h1) self package_name) =
           fst (execute W (inits after h1) self [six_u ''search'', package_name])"
proof -
  let ?h0 = "inits before class_heap"
  let ?h2 = "inits after h1"
  let ?a = class_global_pip_args
  from assms have self: "self = fst (init W0 ?h0 p cache)"
    and h1: "h1 = snd (init W0 ?h0 p cache)"
    by simp_all
  have G: "self_global_pip_args ?h2 self = ?h2 ?a"
    by (simp add: self self_global_pip_args_def init_fields)
  obtain ys0 where ys0: "?h0 ?a = class_heap ?a @ ys0"
    using inits_grows [of before class_heap] by blast
  obtain ys2 where ys2: "?h2 ?a = h1 ?a @ ys2"
    using inits_grows [of after h1] by blast
  have h1a: "h1 ?a = ?h0 ?a @
      (case cache of None \<Rightarrow> [] | Some c \<Rightarrow> [six_u ''--cache-dir'', expand W0 c])"
    by (simp add: h1 init_heap)
  have flag: "class_heap ?a = [six_u ''--disable-pip-version-check'']"
    by (simp add: class_heap_def)
  have ev: "fst (execute W ?h2 self args) =
            [Popen ([six_u ''bin/pip''] @ self_global_pip_args ?h2 self @ args) p (environ W0)]
          \<or> (\<exists>out err. fst (execute W ?h2 self args) =
            [Popen ([six_u ''bin/pip''] @ self_global_pip_args ?h2 self @ args) p (environ W0),
             Print out err])"
    using execute_events [of W ?h2 self args]
    by (simp add: pip_argv_def pip_rpath_eq self init_fields)
  have first: "\<exists>rest. self_global_pip_args ?h2 self =
      six_u ''--disable-pip-version-check'' # rest"
    by (simp add: G ys2 h1a ys0 flag)
  have cached: "\<forall>c. cache = Some c \<longrightarrow>
            (\<exists>pre post. self_global_pip_args ?h2 self =
               pre @ [six_u ''--cache-dir'', expand W0 c] @ post)"
  proof (intro allI impI)
    fix c
    assume "cache = Some c"
    then have "self_global_pip_args ?h2 self =
        ?h0 ?a @ [six_u ''--cache-dir'', expand W0 c] @ ys2"
      by (simp add: G ys2 h1a)
    then show "\<exists>pre post. self_global_pip_args ?h2 self =
        pre @ [six_u ''--cache-dir'', expand W0 c] @ post"
      by blast
  qed
  from ev first cached show ?thesis
    by (simp only: method_events simp_thms)
qed

theorem execute_argv_witness:
  "fst (execute (example_world (Inr (0, [], [])))
          (snd (init (example_world (Inl [])) class_heap (six_u ''/venv'') (Some (six_u ''/c''))))
          (fst (init (example_world (Inl [])) class_heap (six_u ''/venv'') (Some (six_u ''/c''))))
          [six_u ''search'', six_u ''nose'']) =
     [Popen [six_u ''bin/pip'', six_u ''--disable-pip-version-check'', six_u ''--cache-dir'',
             six_u ''/c'', six_u ''search'', six_u ''nose'']
        (six_u ''/venv'') [six_u ''HOME'' \<mapsto> six_u ''/root'']]"
  using execute_argv [of "example_world (Inl [])" "[]" "six_u ''/venv''" "Some (six_u ''/c'')"
      "fst (init (example_world (Inl [])) class_heap (six_u ''/venv'') (Some (six_u ''/c'')))"
      "snd (init (example_world (Inl [])) class_heap (six_u ''/venv'') (Some (six_u ''/c'')))"
      "example_world (Inr (0, [], []))" "[]" "[six_u ''search'', six_u ''nose'']"
      "six_u ''nose''" None]
  by (simp add: init_def Let_def self_global_pip_args_def self_global_pip_args_addr_def
      class_heap_def class_global_pip_args_def example_world_def execute_zero)

subsection \<open>\<open>search\<close>\<close>

text \<open>The cut that \<open>split\<close> makes is the cut at the first position where the separator occurs.\<close>

lemma find_map: "find P (map f xs) = map_option f (find (P \<circ> f) xs)"
  by (induction xs) simp_all

lemma prefix_take_eq: "prefix sep s \<longleftrightarrow> take (length sep) s = sep"
  by (metis append_eq_conv_conj prefix_def append_take_drop_id)

lemma find_sep_cut_at:
  assumes "sep \<noteq> []"
  shows "find_sep sep s = cut_at sep s"
proof (induction s)
  case Nil
  from assms show ?case by (simp add: cut_at_def)
next
  case (Cons c cs)
  have upt: "[0..<Suc (Suc (length cs))] = 0 # map Suc [0..<Suc (length cs)]"
    by (simp add: map_Suc_upt upt_conv_Cons del: upt_Suc)
  show ?case
  proof (cases "prefix sep (c # cs)")
    case True
    then show ?thesis
      by (simp add: cut_at_def upt prefix_take_eq del: upt_Suc)
  next
    case False
    then have np: "take (length sep) (c # cs) \<noteq> sep"
      by (simp add: prefix_take_eq)
    have "cut_at sep (c # cs) =
        (case find (\<lambda>i. take (length sep) (drop i cs) = sep) [0..<Suc (length cs)] of
           None \<Rightarrow> None
         | Some i \<Rightarrow> Some (c # take i cs, drop (i + length sep) cs))"
      using np
      by (simp add: cut_at_def upt find_map comp_def del: upt_Suc split: option.splits)
    also have "\<dots> = (case cut_at sep cs of None \<Rightarrow> None | Some (a, b) \<Rightarrow> Some (c # a, b))"
      by (simp add: cut_at_def split: option.splits)
    finally show ?thesis
      using False Cons.IH by simp
  qed
qed

lemma str_splitn_lines: "length s \<le> n \<Longrightarrow> str_splitn [10] n s = lines_of s"
proof (induction s arbitrary: n)
  case Nil
  show ?case by (cases n) simp_all
next
  case (Cons c cs)
  then obtain m where n: "n = Suc m" and m: "length cs \<le> m"
    by (cases n) auto
  show ?case
  proof (cases "c = 10")
    case True
    with Cons.IH [OF m] show ?thesis by (simp add: n)
  next
    case False
    from m have "length cs \<le> Suc m" by simp
    from Cons.IH [OF this] have "lines_of cs =
        (case find_sep [10] cs of None \<Rightarrow> [cs] | Some (a, b) \<Rightarrow> a # str_splitn [10] m b)"
      by simp
    with False show ?thesis
      by (simp add: n split: option.splits)
  qed
qed

lemma str_split_lines: "str_split os_linesep s = lines_of s"
  by (simp add: str_split_def os_linesep_def str_splitn_lines)

lemma sep_nonempty: "six_u '' - '' \<noteq> []" "six_u ''<br'' \<noteq> []"
  by (simp_all add: six_u_def)

text \<open>Stripping is trimming: the slice between the leading and the trailing whitespace.\<close>

lemma strip_with_slice:
  "strip_with P s =
     take (length s - length (takeWhile P s) - length (takeWhile P (rev s)))
       (drop (length (takeWhile P s)) s)"
proof (cases "dropWhile P s = []")
  case True
  then have all: "\<forall>x\<in>set s. P x"
    by (simp add: dropWhile_eq_Nil_conv)
  then have tw: "takeWhile P s = s"
    by (simp add: takeWhile_eq_all_conv)
  have rhs: "drop (length (takeWhile P s)) s = []"
    by (subst tw) simp
  have "strip_with P s = []"
    unfolding strip_with_def True by simp
  then show ?thesis
    by (simp only: rhs take_Nil)
next
  case False
  let ?n = "length (takeWhile P s)"
  let ?t = "dropWhile P s"
  have t: "?t = drop ?n s"
    by (rule dropWhile_eq_drop)
  have s: "s = takeWhile P s @ ?t"
    by simp
  from False have nP: "\<not> P (hd ?t)"
    by (rule hd_dropWhile)
  from False have mem: "hd ?t \<in> set (rev ?t)"
    by simp
  have "rev s = rev ?t @ rev (takeWhile P s)"
    by (subst s) (simp only: rev_append)
  then have "takeWhile P (rev s) = takeWhile P (rev ?t)"
    using takeWhile_append1 [of "hd ?t" "rev ?t" P "rev (takeWhile P s)"] mem nP by simp
  then have m: "length (takeWhile P (rev s)) = length (takeWhile P (rev ?t))"
    by simp
  have "strip_with P s = rev (drop (length (takeWhile P (rev ?t))) (rev ?t))"
    by (simp add: strip_with_def dropWhile_eq_drop [of P "rev ?t"])
  also have "\<dots> = take (length ?t - length (takeWhile P (rev ?t))) ?t"
    by (simp add: rev_drop)
  also have "length ?t = length s - ?n"
    by (simp add: t)
  finally show ?thesis
    by (simp add: m t)
qed

lemma str_strip_trimmed: "str_strip s = trimmed s"
  by (simp add: str_strip_def trimmed_def Let_def strip_with_slice)

lemma search_body_spec: "search_body line = Inr (spec_entry line)"
  by (simp add: search_body_def spec_entry_def Let_def find_sep_cut_at [OF sep_nonempty(1)]
      find_sep_cut_at [OF sep_nonempty(2)] str_strip_trimmed split: option.splits)

lemma search_loop_fold:
  "search_loop ls packages =
     Inr (fold (\<lambda>line m. case spec_entry line of None \<Rightarrow> m | Some (n, d) \<Rightarrow> m(n \<mapsto> d))
            ls packages)"
  by (induction ls arbitrary: packages) (simp_all add: search_body_spec split: option.splits)

text \<open>
  Claim C4. For every text of stdout, \<open>search\<close> builds the dictionary that the
  specification describes: the text is cut into lines at line feeds; a line is cut at the
  first \<open>" - "\<close> into name and description; a line without the separator, or whose
  trimmed name is empty, is skipped; both parts are trimmed, that is, they lose their
  leading and trailing whitespace, the description after being truncated at the first
  \<open>"<br"\<close> if there is one; each entry is stored under its name.
  \<^item> The three lines \<open>foo - bar baz\<close>, \<open>no-separator-line\<close> and \<open>qux - quux<br>extra\<close>
    give \<open>foo\<close> with \<open>bar baz\<close> and \<open>qux\<close> with \<open>quux\<close>.
  \<^item> The empty text gives the empty dictionary.
  \<^item> Of the three lines \<open>"  spaced name \t -   padded description  <br> rest"\<close>,
    \<open>"   - no name"\<close> and \<open>"tabbed\t - \tvalue\r"\<close>, the first gives \<open>spaced name\<close> with
    \<open>padded description\<close>, the second is skipped, since its name is whitespace only, and
    the third gives \<open>tabbed\<close> with \<open>value\<close>.
  \<^item> When the subprocess exits with code 0 and its stripped outputs can be decoded, the
    text that \<open>search\<close> parses is the stripped and decoded stdout.
\<close>

theorem search_parses:
  "search_parse stdout = Inr (spec_search stdout)
   \<and> search_parse (six_u ''foo - bar baz'' @ [10] @ six_u ''no-separator-line'' @ [10]
                      @ six_u ''qux - quux<br>extra'') =
       Inr [six_u ''foo'' \<mapsto> six_u ''bar baz'', six_u ''qux'' \<mapsto> six_u ''quux'']
   \<and> search_parse [] = Inr Map.empty
   \<and> search_parse (six_u ''  spaced name '' @ [9] @ six_u '' -   padded description  <br> rest''
                      @ [10] @ six_u ''   - no name'' @ [10]
                      @ six_u ''tabbed'' @ [9] @ six_u '' - '' @ [9] @ six_u ''value'' @ [13]) =
       Inr [six_u ''spaced name'' \<mapsto> six_u ''padded description'',
            six_u ''tabbed'' \<mapsto> six_u ''value'']
   \<and> (popen W (pip_argv h self [six_u ''search'', search_term]) (path self) (env self) =
          Inr (0, out, err)
        \<and> to_text W (bytes_strip out) = Some stdout' \<and> to_text W (bytes_strip err) = Some stderr'
        \<longrightarrow> snd (search W h self search_term) = search_parse stdout')"
proof (intro conjI impI)
  show "search_parse stdout = Inr (spec_search stdout)"
    by (simp add: search_parse_def spec_search_def search_loop_fold str_split_lines)
next
  show "search_parse (six_u ''foo - bar baz'' @ [10] @ six_u ''no-separator-line'' @ [10]
                      @ six_u ''qux - quux<br>extra'') =
       Inr [six_u ''foo'' \<mapsto> six_u ''bar baz'', six_u ''qux'' \<mapsto> six_u ''quux'']"
    by (simp add: search_parse_def str_split_def six_u_def os_linesep_def search_body_def
        str_strip_def strip_with_def str_isspace_def)
next
  show "search_parse [] = Inr Map.empty"
    by (simp add: search_parse_def str_split_def six_u_def os_linesep_def search_body_def)
next
  show "search_parse (six_u ''  spaced name '' @ [9] @ six_u '' -   padded description  <br> rest''
                      @ [10] @ six_u ''   - no name'' @ [10]
                      @ six_u ''tabbed'' @ [9] @ six_u '' - '' @ [9] @ six_u ''value'' @ [13]) =
       Inr [six_u ''spaced name'' \<mapsto> six_u ''padded description'',
            six_u ''tabbed'' \<mapsto> six_u ''value'']"
    by (simp add: search_parse_def str_split_def six_u_def os_linesep_def search_body_def
        str_strip_def strip_with_def str_isspace_def)
next
  assume "popen W (pip_argv h self [six_u ''search'', search_term]) (path self) (env self) =
          Inr (0, out, err)
        \<and> to_text W (bytes_strip out) = Some stdout' \<and> to_text W (bytes_strip err) = Some stderr'"
  then show "snd (search W h self search_term) = search_parse stdout'"
    by (simp add: search_def execute_zero)
qed

theorem search_parses_witness:
  "snd (search (example_world (Inr (0, ''  foo  -  bar baz  '' @ [CHR 0x0A]
                  @ ''no-separator-line'' @ [CHR 0x0A] @ ''  - nameless'' @ [CHR 0x0A]
                  @ ''qux - quux <br>extra'' @ [CHR 0x0A], [])))
         class_heap example_self (six_u ''q'')) =
     Inr [six_u ''foo'' \<mapsto> six_u ''bar baz'', six_u ''qux'' \<mapsto> six_u ''quux'']"
proof -
  let ?out = "''  foo  -  bar baz  '' @ [CHR 0x0A] @ ''no-separator-line'' @ [CHR 0x0A]
                @ ''  - nameless'' @ [CHR 0x0A] @ ''qux - quux <br>extra'' @ [CHR 0x0A]"
  let ?text = "six_u ''foo  -  bar baz  '' @ [10] @ six_u ''no-separator-line'' @ [10]
                 @ six_u ''  - nameless'' @ [10] @ six_u ''qux - quux <br>extra''"
  let ?W = "example_world (Inr (0, ?out, []))"
  have run: "popen ?W (pip_argv class_heap example_self [six_u ''search'', six_u ''q''])
               (path example_self) (env example_self) = Inr (0, ?out, [])"
    by (simp add: example_world_def)
  have out: "to_text ?W (bytes_strip ?out) = Some ?text"
    by (simp add: example_world_def bytes_strip_def strip_with_def bytes_isspace_def six_u_def)
  have err: "to_text ?W (bytes_strip []) = Some []"
    by (simp add: example_world_def bytes_strip_def strip_with_def)
  from search_parses [of "[]" ?W class_heap example_self "six_u ''q''" ?out "[]" ?text "[]"]
    run out err
  have "snd (search ?W class_heap example_self (six_u ''q'')) = search_parse ?text"
    by blast
  also have "\<dots> = Inr [six_u ''foo'' \<mapsto> six_u ''bar baz'', six_u ''qux'' \<mapsto> six_u ''quux'']"
    by (simp add: search_parse_def str_split_def six_u_def os_linesep_def search_body_def
        str_strip_def strip_with_def str_isspace_def)
  finally show ?thesis .
qed

lemma fold_keeps:
  assumes "\<forall>l\<in>set post. \<forall>d. spec_entry l \<noteq> Some (name, d)"
  shows "fold (\<lambda>line m. case spec_entry line of None \<Rightarrow> m | Some (n, d) \<Rightarrow> m(n \<mapsto> d))
           post m name = m name"
  using assms
proof (induction post arbitrary: m)
  case Nil
  show ?case by simp
next
  case (Cons l post)
  then show ?case
    by (cases "spec_entry l") auto
qed

text \<open>
  Claim C10. Let \<open>line\<close> be a line of the output of \<open>search\<close> for which the body of the
  loop stores \<open>description\<close> under \<open>name\<close>, and let no later line store anything
  under \<open>name\<close>. Then, whatever the earlier lines store under \<open>name\<close>, \<open>search\<close>
  returns a dictionary whose value for \<open>name\<close> is \<open>description\<close>: of several lines with
  the same trimmed name the last one wins, and the dictionary, being a mapping, has one
  value for the name.
\<close>

theorem search_last_line_wins:
  assumes "str_split os_linesep stdout = pre @ [line] @ post"
    and "search_body line = Inr (Some (name, description))"
    and "\<forall>l\<in>set post. \<forall>d. search_body l \<noteq> Inr (Some (name, d))"
  shows "\<exists>packages. search_parse stdout = Inr packages \<and> packages name = Some description"
proof -
  let ?upd = "\<lambda>line m. case spec_entry line of None \<Rightarrow> m | Some (n, d) \<Rightarrow> m(n \<mapsto> d)"
  from assms(2) have line: "spec_entry line = Some (name, description)"
    by (simp add: search_body_spec)
  from assms(3) have post: "\<forall>l\<in>set post. \<forall>d. spec_entry l \<noteq> Some (name, d)"
    by (simp add: search_body_spec)
  have "search_parse stdout = Inr (fold ?upd (pre @ [line] @ post) Map.empty)"
    by (simp only: search_parse_def assms(1) search_loop_fold)
  moreover have "fold ?upd (pre @ [line] @ post) Map.empty name = Some description"
    using fold_keeps [OF post] by (simp add: line)
  ultimately show ?thesis by blast
qed

theorem search_last_line_wins_witness:
  "\<exists>packages.
     search_parse (six_u ''foo - first'' @ [10] @ six_u ''foo - second'' @ [10]
                     @ six_u ''bar - third'') = Inr packages
     \<and> packages (six_u ''foo'') = Some (six_u ''second'')"
  using search_last_line_wins [of
      "six_u ''foo - first'' @ [10] @ six_u ''foo - second'' @ [10] @ six_u ''bar - third''"
      "[six_u ''foo - first'']" "six_u ''foo - second''" "[six_u ''bar - third'']"
      "six_u ''foo''" "six_u ''second''"]
  by (simp add: str_split_def six_u_def os_linesep_def search_body_def
      str_strip_def strip_with_def str_isspace_def)

end
